theory Spec2Isabelle
  imports Main
begin

section \<open>Python values and strings\<close>

text \<open>
  A Python \<^verbatim>\<open>str\<close> is a sequence of Unicode code points. A code point is a natural
  number here, so that the whitespace test of \<^verbatim>\<open>str.strip()\<close> and \<^verbatim>\<open>str.split()\<close> is
  the one of the interpreter on the whole range and not only on ASCII. Literals are
  written \<open>str ''ls -l''\<close>.
\<close>

type_synonym pystr = "nat list"

type_synonym argv = "pystr list"

definition str :: "string \<Rightarrow> pystr" where
  "str = map of_char"

definition semicolon :: nat where
  "semicolon = 59"

text \<open>
  The code points for which \<^verbatim>\<open>str.isspace\<close> holds: U+0009 to U+000D, U+001C to
  U+001F, U+0020, U+0085, U+00A0, U+1680, U+2000 to U+200A, U+2028, U+2029, U+202F,
  U+205F and U+3000. Both \<^verbatim>\<open>strip()\<close> and \<^verbatim>\<open>split()\<close> without arguments use this set.
\<close>

definition isspace :: "nat \<Rightarrow> bool" where
  "isspace c =
     ((9 \<le> c \<and> c \<le> 13) \<or> (28 \<le> c \<and> c \<le> 32) \<or> c = 133 \<or> c = 160 \<or> c = 5760
      \<or> (8192 \<le> c \<and> c \<le> 8202) \<or> c = 8232 \<or> c = 8233 \<or> c = 8239 \<or> c = 8287
      \<or> c = 12288)"

text \<open>
  The runtime values that can reach the functions of \<^verbatim>\<open>ShellUtil\<close>: the type hints are
  not enforced, so a caller can pass any of them. Of these only \<open>PStr\<close> has the
  attributes \<^verbatim>\<open>strip\<close> and \<^verbatim>\<open>split\<close>.
\<close>

datatype pyval =
    PStr pystr
  | PList "pyval list"
  | PTuple "pyval list"
  | PInt int
  | PNone

text \<open>
  The exceptions that can leave the module. \<open>TypeError\<close> is the one raised by
  \<^verbatim>\<open>parse_shell_command\<close> itself, \<open>AttributeError\<close> comes from the attribute lookup
  \<^verbatim>\<open>command_to_execute.strip\<close>, the last two from \<^verbatim>\<open>subprocess.run\<close>.
\<close>

datatype py_error =
    TypeError
  | AttributeError
  | OSError
  | CalledProcessError int

section \<open>The string methods used by the module\<close>

text \<open>\<^verbatim>\<open>s.strip()\<close>: leading and trailing whitespace removed.\<close>

definition py_strip :: "pystr \<Rightarrow> pystr" where
  "py_strip s = rev (dropWhile isspace (rev (dropWhile isspace s)))"

text \<open>
  \<^verbatim>\<open>s.split(sep)\<close> for a separator of one character: the pieces between the
  occurrences of the separator, empty pieces included; \<open>seg\<close> is the piece being read.
  \<^verbatim>\<open>''.split(';')\<close> is \<^verbatim>\<open>['']\<close>.
\<close>

fun split_sep :: "nat \<Rightarrow> pystr \<Rightarrow> pystr \<Rightarrow> pystr list" where
  "split_sep sep seg [] = [seg]"
| "split_sep sep seg (c # cs) =
     (if c = sep then seg # split_sep sep [] cs else split_sep sep (seg @ [c]) cs)"

definition py_split_on :: "nat \<Rightarrow> pystr \<Rightarrow> pystr list" where
  "py_split_on sep s = split_sep sep [] s"

text \<open>
  \<^verbatim>\<open>s.split()\<close>: the maximal runs of characters that are not whitespace, in order;
  \<open>tok\<close> is the run being read. No empty string is ever produced.
\<close>

fun split_ws :: "pystr \<Rightarrow> pystr \<Rightarrow> pystr list" where
  "split_ws tok [] = (if tok = [] then [] else [tok])"
| "split_ws tok (c # cs) =
     (if isspace c then (if tok = [] then split_ws [] cs else tok # split_ws [] cs)
      else split_ws (tok @ [c]) cs)"

definition py_split :: "pystr \<Rightarrow> pystr list" where
  "py_split s = split_ws [] s"

section \<open>ShellUtil\<close>

text \<open>
  \<^verbatim>\<open>_get_commands\<close>:
  \<^verbatim>\<open>return [command.split() for command in commands if len(command) > 0]\<close>
\<close>

definition get_commands :: "pystr list \<Rightarrow> argv list" where
  "get_commands commands = map py_split (filter (\<lambda>command. length command > 0) commands)"

text \<open>
  \<^verbatim>\<open>_get_commands_from_str\<close> on a string:
  \<^verbatim>\<open>commands = command_to_execute.strip().split(';')\<close>, then \<^verbatim>\<open>_get_commands\<close>.
  \<open>command_segments\<close> is the list \<^verbatim>\<open>commands\<close> after the filter of \<^verbatim>\<open>_get_commands\<close>: the
  substrings that become vectors.
\<close>

definition get_commands_from_str :: "pystr \<Rightarrow> argv list" where
  "get_commands_from_str command_to_execute =
     get_commands (py_split_on semicolon (py_strip command_to_execute))"

definition command_segments :: "pystr \<Rightarrow> pystr list" where
  "command_segments command_to_execute =
     filter (\<lambda>command. length command > 0) (py_split_on semicolon (py_strip command_to_execute))"

text \<open>
  The same call on any runtime value: the first thing the body does is look up
  \<^verbatim>\<open>strip\<close> on its argument, which raises \<^verbatim>\<open>AttributeError\<close> on everything but a string.
\<close>

fun call_get_commands_from_str :: "pyval \<Rightarrow> py_error + argv list" where
  "call_get_commands_from_str (PStr s) = Inr (get_commands_from_str s)"
| "call_get_commands_from_str _ = Inl AttributeError"

text \<open>
  The loop of \<^verbatim>\<open>parse_shell_command\<close> over a list or tuple:
  \<^verbatim>\<open>commands_to_run += ShellUtil._get_commands_from_str(command)\<close>.
\<close>

fun parse_loop :: "pyval list \<Rightarrow> argv list \<Rightarrow> py_error + argv list" where
  "parse_loop [] commands_to_run = Inr commands_to_run"
| "parse_loop (command # rest) commands_to_run =
     (case call_get_commands_from_str command of
        Inl e \<Rightarrow> Inl e
      | Inr vs \<Rightarrow> parse_loop rest (commands_to_run @ vs))"

fun parse_shell_command :: "pyval \<Rightarrow> py_error + argv list" where
  "parse_shell_command (PStr s) = call_get_commands_from_str (PStr s)"
| "parse_shell_command (PList xs) = parse_loop xs []"
| "parse_shell_command (PTuple xs) = parse_loop xs []"
| "parse_shell_command _ = Inl TypeError"

section \<open>Running the commands\<close>

text \<open>
  \<^verbatim>\<open>subprocess.run\<close> is the launch primitive of the standard library. What a child
  process does is the environment's business: \<open>launch\<close> says, for an argument vector,
  whether the child cannot be started (and which exception that raises) or with which
  status it exits. Of the keyword arguments only \<^verbatim>\<open>check\<close> changes what is raised:
  without it a non-zero exit status is returned in the \<^verbatim>\<open>CompletedProcess\<close>, with it
  \<^verbatim>\<open>CalledProcessError\<close> is raised.
\<close>

datatype launch = NotStarted py_error | Exited int

record kwargs =
  check :: bool

definition run :: "(argv \<Rightarrow> launch) \<Rightarrow> kwargs \<Rightarrow> argv \<Rightarrow> py_error + int" where
  "run os kw command =
     (case os command of
        NotStarted e \<Rightarrow> Inl e
      | Exited rc \<Rightarrow> if check kw \<and> rc \<noteq> 0 then Inl (CalledProcessError rc) else Inr rc)"

definition started :: "(argv \<Rightarrow> launch) \<Rightarrow> argv \<Rightarrow> bool" where
  "started os command = (case os command of NotStarted e \<Rightarrow> False | Exited rc \<Rightarrow> True)"

text \<open>
  The loop of \<^verbatim>\<open>subprocess_run\<close>. The state is the list of the vectors for which a
  child process was started, oldest first; it is returned with the outcome.
\<close>

fun run_loop ::
  "(argv \<Rightarrow> launch) \<Rightarrow> kwargs \<Rightarrow> argv list \<Rightarrow> argv list \<Rightarrow> (py_error + unit) \<times> argv list" where
  "run_loop os kw [] spawned = (Inr (), spawned)"
| "run_loop os kw (command # rest) spawned =
     (let spawned' = (if started os command then spawned @ [command] else spawned)
      in case run os kw command of
           Inl e \<Rightarrow> (Inl e, spawned')
         | Inr rc \<Rightarrow> run_loop os kw rest spawned')"

definition subprocess_run ::
  "(argv \<Rightarrow> launch) \<Rightarrow> kwargs \<Rightarrow> pyval \<Rightarrow> (py_error + unit) \<times> argv list" where
  "subprocess_run os kw commands =
     (case parse_shell_command commands of
        Inl e \<Rightarrow> (Inl e, [])
      | Inr commands_to_execute \<Rightarrow> run_loop os kw commands_to_execute [])"

section \<open>Shapes of the input\<close>

text \<open>
  The two tests of \<^verbatim>\<open>parse_shell_command\<close>, \<^verbatim>\<open>isinstance(command_to_execute, str)\<close> and
  \<^verbatim>\<open>isinstance(command_to_execute, (t.List, t.Tuple))\<close>, and the shape its type hint
  asks for: a list or tuple whose elements are all strings.
\<close>

fun is_str :: "pyval \<Rightarrow> bool" where
  "is_str (PStr s) = True"
| "is_str _ = False"

fun is_seq :: "pyval \<Rightarrow> bool" where
  "is_seq (PList xs) = True"
| "is_seq (PTuple xs) = True"
| "is_seq _ = False"

fun is_str_seq :: "pyval \<Rightarrow> bool" where
  "is_str_seq (PList xs) = list_all is_str xs"
| "is_str_seq (PTuple xs) = list_all is_str xs"
| "is_str_seq _ = False"

text \<open>
  An environment in which the program \<^verbatim>\<open>false\<close> exits with status 1 and every other
  command exits with status 0.
\<close>

definition false_env :: "argv \<Rightarrow> launch" where
  "false_env command = (if command = [str ''false''] then Exited 1 else Exited 0)"

section \<open>Evaluation of literals\<close>

lemma str_Nil [simp]: "str [] = []"
  by (simp add: str_def)

lemma str_Cons [simp]: "str (c # cs) = of_char c # str cs"
  by (simp add: str_def)

section \<open>Facts about the string methods\<close>

lemma split_sep_no_sep: "sep \<notin> set s \<Longrightarrow> split_sep sep seg s = [seg @ s]"
  by (induction s arbitrary: seg) auto

lemma split_sep_at_sep:
  "sep \<notin> set a \<Longrightarrow> split_sep sep seg (a @ sep # b) = (seg @ a) # split_sep sep [] b"
  by (induction a arbitrary: seg) auto

lemma split_ws_all_space:
  "list_all isspace ws \<Longrightarrow> split_ws tok ws = (if tok = [] then [] else [tok])"
  by (induction ws arbitrary: tok) auto

lemma split_ws_space:
  "isspace c \<Longrightarrow> split_ws tok (a @ c # b) = split_ws tok a @ split_ws [] b"
  by (induction a arbitrary: tok) auto

lemma split_ws_word:
  "\<not> list_ex isspace t \<Longrightarrow> split_ws tok t = (if tok @ t = [] then [] else [tok @ t])"
  by (induction t arbitrary: tok) auto

lemma split_ws_append_space:
  "list_all isspace ws \<Longrightarrow> split_ws tok (s @ ws) = split_ws tok s"
  by (induction s arbitrary: tok) (auto simp: split_ws_all_space)

lemma split_ws_dropWhile: "split_ws [] (dropWhile isspace s) = split_ws [] s"
  by (induction s) auto

lemma split_ws_tokens:
  "list_all (\<lambda>c. \<not> isspace c) tok \<Longrightarrow>
   list_all (\<lambda>t. t \<noteq> [] \<and> list_all (\<lambda>c. \<not> isspace c) t) (split_ws tok s)"
  by (induction s arbitrary: tok) simp_all

lemma concat_split_ws: "concat (split_ws tok s) = tok @ filter (\<lambda>c. \<not> isspace c) s"
  by (induction s arbitrary: tok) auto

lemma split_ws_pending: "tok \<noteq> [] \<Longrightarrow> split_ws tok s \<noteq> []"
  by (induction s arbitrary: tok) simp_all

lemma split_ws_nonempty: "\<not> list_all isspace s \<Longrightarrow> split_ws tok s \<noteq> []"
  by (induction s arbitrary: tok) (simp_all add: split_ws_pending)

lemma rstrip_decomp:
  "s = rev (dropWhile isspace (rev s)) @ rev (takeWhile isspace (rev s))"
  by (metis rev_append rev_rev_ident takeWhile_dropWhile_id)

lemma split_ws_rstrip: "split_ws tok (rev (dropWhile isspace (rev s))) = split_ws tok s"
proof -
  have "list_all isspace (rev (takeWhile isspace (rev s)))"
    by (simp add: list_all_iff) (metis set_takeWhileD)
  then have "split_ws tok (rev (dropWhile isspace (rev s)) @ rev (takeWhile isspace (rev s)))
      = split_ws tok (rev (dropWhile isspace (rev s)))"
    by (rule split_ws_append_space)
  then show ?thesis using rstrip_decomp [of s] by simp
qed

lemma py_split_strip: "py_split (py_strip s) = py_split s"
  by (simp add: py_split_def py_strip_def split_ws_rstrip split_ws_dropWhile)

lemma dropWhile_all: "list_all P s \<Longrightarrow> dropWhile P s = []"
  by (induction s) simp_all

lemma py_strip_all_space: "list_all isspace s \<Longrightarrow> py_strip s = []"
  by (simp add: py_strip_def dropWhile_all)

lemma dropWhile_keeps_content:
  "\<not> list_all P s \<Longrightarrow> \<not> list_all P (dropWhile P s)"
  by (induction s) simp_all

lemma py_strip_content: "\<not> list_all isspace s \<Longrightarrow> py_strip s \<noteq> []"
proof -
  assume "\<not> list_all isspace s"
  then have "\<not> list_all isspace (dropWhile isspace s)"
    by (rule dropWhile_keeps_content)
  then have "\<not> list_all isspace (rev (dropWhile isspace s))"
    by (simp add: list_all_iff)
  then have "dropWhile isspace (rev (dropWhile isspace s)) \<noteq> []"
    by (simp add: list_all_iff dropWhile_eq_Nil_conv)
  then show ?thesis by (simp add: py_strip_def)
qed

lemma set_py_strip: "set (py_strip s) \<subseteq> set s"
  unfolding py_strip_def
  by (metis set_rev set_dropWhileD subsetI)

section \<open>Facts about the parser\<close>

lemmas shell_eval =
  get_commands_from_str_def get_commands_def command_segments_def py_split_on_def
  py_split_def py_strip_def isspace_def semicolon_def

lemma semicolon_not_space: "\<not> isspace semicolon"
  by (simp add: isspace_def semicolon_def)

lemma lstrip_append:
  "\<not> list_all P a \<Longrightarrow> dropWhile P (a @ b) = dropWhile P a @ b"
  by (induction a) simp_all

lemma rstrip_nonempty: "\<not> list_all P s \<Longrightarrow> rev (dropWhile P (rev s)) \<noteq> []"
  by (simp add: dropWhile_eq_Nil_conv list_all_iff)

lemma py_strip_rejoin:
  assumes "\<not> list_all isspace c1" and "\<not> list_all isspace c2"
  shows "py_strip (c1 @ semicolon # c2) =
         dropWhile isspace c1 @ semicolon # rev (dropWhile isspace (rev c2))"
proof -
  have "dropWhile isspace (c1 @ semicolon # c2) = dropWhile isspace c1 @ semicolon # c2"
    using assms(1) by (rule lstrip_append)
  moreover have "\<not> list_all isspace (rev c2)"
    using assms(2) by (simp add: list_all_iff)
  then have "dropWhile isspace (rev c2 @ semicolon # rev (dropWhile isspace c1)) =
             dropWhile isspace (rev c2) @ semicolon # rev (dropWhile isspace c1)"
    by (rule lstrip_append)
  ultimately show ?thesis by (simp add: py_strip_def)
qed

lemma get_commands_from_str_rejoin:
  assumes "semicolon \<notin> set c1" and "semicolon \<notin> set c2"
    and "\<not> list_all isspace c1" and "\<not> list_all isspace c2"
  shows "get_commands_from_str (c1 @ semicolon # c2) = [py_split c1, py_split c2]"
proof -
  let ?a = "dropWhile isspace c1" and ?b = "rev (dropWhile isspace (rev c2))"
  have a: "semicolon \<notin> set ?a" using assms(1) by (metis set_dropWhileD)
  have b: "semicolon \<notin> set ?b" using assms(2) by (metis set_dropWhileD set_rev)
  have "py_split_on semicolon (py_strip (c1 @ semicolon # c2)) = [?a, ?b]"
    using a b by (simp add: py_strip_rejoin assms py_split_on_def split_sep_at_sep split_sep_no_sep)
  moreover have "?a \<noteq> []"
    using assms(3) by (simp add: dropWhile_eq_Nil_conv list_all_iff)
  moreover have "?b \<noteq> []" using assms(4) by (rule rstrip_nonempty)
  ultimately show ?thesis
    by (simp add: get_commands_from_str_def get_commands_def py_split_def
        split_ws_dropWhile split_ws_rstrip)
qed

lemma get_commands_from_str_single:
  assumes "semicolon \<notin> set s" and "\<not> list_all isspace s"
  shows "get_commands_from_str s = [py_split s]"
proof -
  have "semicolon \<notin> set (py_strip s)" using assms(1) set_py_strip by blast
  then have "py_split_on semicolon (py_strip s) = [py_strip s]"
    by (simp add: py_split_on_def split_sep_no_sep)
  moreover have "py_strip s \<noteq> []" using assms(2) by (rule py_strip_content)
  ultimately show ?thesis
    by (simp add: get_commands_from_str_def get_commands_def py_split_strip)
qed

lemma get_commands_from_str_blank:
  "list_all isspace s \<Longrightarrow> get_commands_from_str s = []"
  by (simp add: get_commands_from_str_def get_commands_def py_strip_all_space py_split_on_def)

lemma parse_loop_strings:
  "parse_loop (map PStr ss) acc = Inr (acc @ concat (map get_commands_from_str ss))"
  by (induction ss arbitrary: acc) simp_all

lemma parse_loop_not_str:
  "\<not> list_all is_str xs \<Longrightarrow> parse_loop xs acc = Inl AttributeError"
proof (induction xs arbitrary: acc)
  case Nil
  then show ?case by simp
next
  case (Cons x xs)
  show ?case
  proof (cases x)
    case (PStr s)
    with Cons show ?thesis by simp
  qed simp_all
qed












section \<open>The claims\<close>

text \<open>
  C1. The claim is that no vector of the result is empty, because a substring that is
  empty after stripping is discarded. The filter of \<^verbatim>\<open>_get_commands\<close> tests
  \<^verbatim>\<open>len(command) > 0\<close> on the substring as it is, and only the whole input was stripped:
  a substring of blanks between two delimiters passes the test and \<^verbatim>\<open>split()\<close> turns it
  into the empty vector. For \<^verbatim>\<open>"a; ;b"\<close> the parser returns three vectors, the second
  of length 0.
\<close>

theorem blank_segment_gives_empty_vector:
  "parse_shell_command (PStr (str ''a; ;b'')) = Inr [[str ''a''], [], [str ''b'']]"
  by (simp add: shell_eval)

text \<open>
  C2, as stated, fails. \<^verbatim>\<open>subprocess_run\<close> forwards only the caller's keyword arguments,
  and with none of them \<^verbatim>\<open>subprocess.run\<close> returns a non-zero exit status instead of
  raising. In an environment where \<^verbatim>\<open>false\<close> exits with status 1, the call on
  \<^verbatim>\<open>"false; echo hi"\<close> with no options returns normally and has started both
  \<^verbatim>\<open>false\<close> and \<^verbatim>\<open>echo hi\<close>.
\<close>

theorem nonzero_exit_does_not_stop:
  "false_env [str ''false''] = Exited 1 \<and>
   subprocess_run false_env \<lparr>check = False\<rparr> (PStr (str ''false; echo hi'')) =
     (Inr (), [[str ''false''], [str ''echo'', str ''hi'']])"
  by (simp add: subprocess_run_def run_def started_def false_env_def shell_eval)

text \<open>
  C2, amended. When the launch primitive raises on the first parsed command (the child
  cannot be started, or it exits with a non-zero status and the caller passed
  \<^verbatim>\<open>check=True\<close>), \<^verbatim>\<open>subprocess_run\<close> ends with that very exception and no later
  vector is started: the only child that can have been started is the first. When the
  first command exits, with any status, and \<^verbatim>\<open>check\<close> is not set, nothing is raised
  and the loop goes on with the remaining vectors.
\<close>

theorem subprocess_run_first_failure:
  assumes "parse_shell_command commands = Inr (v # vs)"
  shows "(run os kw v = Inl e \<longrightarrow>
            subprocess_run os kw commands = (Inl e, if started os v then [v] else []))
       \<and> (os v = Exited rc \<and> \<not> check kw \<longrightarrow>
            subprocess_run os kw commands = run_loop os kw vs [v])"
  using assms by (simp add: subprocess_run_def run_def started_def)

text \<open>
  The amended C2 at \<^verbatim>\<open>"false; echo hi"\<close>. With \<^verbatim>\<open>check=True\<close> the call raises
  \<^verbatim>\<open>CalledProcessError\<close> and \<^verbatim>\<open>echo hi\<close> is never started; without it the loop goes
  on to \<^verbatim>\<open>echo hi\<close>.
\<close>

theorem subprocess_run_first_failure_witness:
  "parse_shell_command (PStr (str ''false; echo hi'')) =
     Inr ([str ''false''] # [[str ''echo'', str ''hi'']])
   \<and> run false_env \<lparr>check = True\<rparr> [str ''false''] = Inl (CalledProcessError 1)
   \<and> subprocess_run false_env \<lparr>check = True\<rparr> (PStr (str ''false; echo hi'')) =
       (Inl (CalledProcessError 1), [[str ''false'']])
   \<and> false_env [str ''false''] = Exited 1 \<and> \<not> check \<lparr>check = False\<rparr>
   \<and> subprocess_run false_env \<lparr>check = False\<rparr> (PStr (str ''false; echo hi'')) =
       run_loop false_env \<lparr>check = False\<rparr> [[str ''echo'', str ''hi'']] [[str ''false'']]"
proof -
  have p: "parse_shell_command (PStr (str ''false; echo hi'')) =
     Inr ([str ''false''] # [[str ''echo'', str ''hi'']])"
    by (simp add: shell_eval)
  have r: "run false_env \<lparr>check = True\<rparr> [str ''false''] = Inl (CalledProcessError 1)"
    by (simp add: run_def false_env_def)
  have s: "started false_env [str ''false'']"
    by (simp add: started_def false_env_def)
  have x: "false_env [str ''false''] = Exited 1"
    by (simp add: false_env_def)
  have c: "\<not> check \<lparr>check = False\<rparr>"
    by simp
  show ?thesis
    using p r s x c
      subprocess_run_first_failure
        [OF p, of false_env "\<lparr>check = True\<rparr>" "CalledProcessError 1"]
      subprocess_run_first_failure
        [OF p, of false_env "\<lparr>check = False\<rparr>" OSError 1]
    by simp
qed

text \<open>
  C3. The claim is that two substrings that became vectors \<open>v1\<close> and \<open>v2\<close>, joined
  again with the delimiter, parse to \<open>[v1, v2]\<close>. The substrings that become vectors
  of \<^verbatim>\<open>"a; ;b"\<close> are \<^verbatim>\<open>"a"\<close>, \<^verbatim>\<open>" "\<close> and \<^verbatim>\<open>"b"\<close>; the second and third have the
  vectors \<open>[]\<close> and \<open>[b]\<close>, and joined they parse to the single vector \<open>[b]\<close>, since
  the blank is now at the start of the input and stripped. For substrings with a
  character that is not whitespace the property holds
  (\<open>get_commands_from_str_rejoin\<close>).
\<close>

theorem rejoin_blank_segment:
  "command_segments (str ''a; ;b'') = [str ''a'', str '' '', str ''b'']
   \<and> py_split (str '' '') = [] \<and> py_split (str ''b'') = [str ''b'']
   \<and> parse_shell_command (PStr (str '' '' @ semicolon # str ''b'')) = Inr [[str ''b'']]"
  by (simp add: shell_eval)

text \<open>
  C4. For a string without the delimiter and with at least one character that is not
  whitespace, the parser returns exactly one vector, the result of \<^verbatim>\<open>split()\<close> on the
  string. That vector is not empty, each of its tokens is non-empty and free of
  whitespace, and the tokens, concatenated in order, are the characters of the string
  that are not whitespace.
\<close>

theorem parse_single_command:
  assumes "semicolon \<notin> set s" and "\<not> list_all isspace s"
  shows "parse_shell_command (PStr s) = Inr [py_split s]
       \<and> py_split s \<noteq> []
       \<and> list_all (\<lambda>t. t \<noteq> [] \<and> list_all (\<lambda>c. \<not> isspace c) t) (py_split s)
       \<and> concat (py_split s) = filter (\<lambda>c. \<not> isspace c) s"
proof -
  have "parse_shell_command (PStr s) = Inr [py_split s]"
    using assms by (simp add: get_commands_from_str_single)
  moreover have "py_split s \<noteq> []"
    using assms(2) by (simp add: py_split_def split_ws_nonempty)
  moreover have "list_all (\<lambda>t. t \<noteq> [] \<and> list_all (\<lambda>c. \<not> isspace c) t) (py_split s)"
    unfolding py_split_def by (rule split_ws_tokens) simp
  moreover have "concat (py_split s) = filter (\<lambda>c. \<not> isspace c) s"
    by (simp add: py_split_def concat_split_ws)
  ultimately show ?thesis by blast
qed

text \<open>
  C4 at \<^verbatim>\<open>"ls -l"\<close>, and at \<^verbatim>\<open>"ls   -l"\<close> where a run of blanks separates the same two
  tokens.
\<close>

theorem parse_single_command_witness:
  "semicolon \<notin> set (str ''ls   -l'') \<and> \<not> list_all isspace (str ''ls   -l'')
   \<and> parse_shell_command (PStr (str ''ls -l'')) = Inr [[str ''ls'', str ''-l'']]
   \<and> parse_shell_command (PStr (str ''ls   -l'')) = Inr [[str ''ls'', str ''-l'']]"
proof -
  have a: "semicolon \<notin> set (str ''ls -l'')" and b: "\<not> list_all isspace (str ''ls -l'')"
    and c: "semicolon \<notin> set (str ''ls   -l'')" and d: "\<not> list_all isspace (str ''ls   -l'')"
    by (simp_all add: isspace_def semicolon_def)
  have e: "py_split (str ''ls -l'') = [str ''ls'', str ''-l'']"
    and f: "py_split (str ''ls   -l'') = [str ''ls'', str ''-l'']"
    by (simp_all add: py_split_def isspace_def)
  show ?thesis
    using c d e f parse_single_command [OF a b] parse_single_command [OF c d]
    by simp
qed

text \<open>
  C5. For a list or a tuple of strings the parser returns the concatenation, in order,
  of the results of \<^verbatim>\<open>_get_commands_from_str\<close> on the elements.
\<close>

theorem parse_sequence_concat:
  "parse_shell_command (PList (map PStr ss)) = Inr (concat (map get_commands_from_str ss))
   \<and> parse_shell_command (PTuple (map PStr ss)) = Inr (concat (map get_commands_from_str ss))"
  by (simp add: parse_loop_strings)

text \<open>C5 at \<^verbatim>\<open>["a;b", "c"]\<close>, as a list and as a tuple.\<close>

theorem parse_sequence_concat_witness:
  "parse_shell_command (PList [PStr (str ''a;b''), PStr (str ''c'')]) =
     Inr [[str ''a''], [str ''b''], [str ''c'']]
   \<and> parse_shell_command (PTuple [PStr (str ''a;b''), PStr (str ''c'')]) =
     Inr [[str ''a''], [str ''b''], [str ''c'']]"
proof -
  have "get_commands_from_str (str ''a;b'') = [[str ''a''], [str ''b'']]"
    and "get_commands_from_str (str ''c'') = [[str ''c'']]"
    by (simp_all add: shell_eval)
  then show ?thesis
    using parse_sequence_concat [of "[str ''a;b'', str ''c'']"] by simp
qed

text \<open>
  C6. \<^verbatim>\<open>"ls;;pwd"\<close> parses to \<open>[[ls], [pwd]]\<close> and \<^verbatim>\<open>"ls -l; pwd;"\<close> to
  \<open>[[ls, -l], [pwd]]\<close>; in general \<^verbatim>\<open>_get_commands\<close> gives the same result with and
  without an empty substring, wherever it stands.
\<close>

theorem parse_drops_empty_segments:
  "parse_shell_command (PStr (str ''ls;;pwd'')) = Inr [[str ''ls''], [str ''pwd'']]
   \<and> parse_shell_command (PStr (str ''ls -l; pwd;'')) =
       Inr [[str ''ls'', str ''-l''], [str ''pwd'']]
   \<and> get_commands (xs @ [] # ys) = get_commands (xs @ ys)"
  by (simp add: shell_eval)

text \<open>
  C7. For a string that is empty or made of whitespace only, the parser returns the
  empty sequence.
\<close>

theorem parse_blank:
  "list_all isspace s \<Longrightarrow> parse_shell_command (PStr s) = Inr []"
  by (simp add: get_commands_from_str_blank)

text \<open>C7 at the empty string and at three blanks.\<close>

theorem parse_blank_witness:
  "list_all isspace (str '''') \<and> list_all isspace (str ''   '')
   \<and> parse_shell_command (PStr (str '''')) = Inr []
   \<and> parse_shell_command (PStr (str ''   '')) = Inr []"
proof -
  have a: "list_all isspace (str '''')" and b: "list_all isspace (str ''   '')"
    by (simp_all add: isspace_def)
  show ?thesis using a b parse_blank [OF a] parse_blank [OF b] by simp
qed

text \<open>
  C8, as stated, fails. The list \<^verbatim>\<open>[42]\<close> is neither a string nor a sequence of
  strings, and the parser does not answer it with \<^verbatim>\<open>TypeError\<close>: the list passes the
  \<^verbatim>\<open>isinstance\<close> test, and the call of \<^verbatim>\<open>strip\<close> on its element raises
  \<^verbatim>\<open>AttributeError\<close>.
\<close>

theorem list_of_non_strings_not_TypeError:
  "\<not> is_str (PList [PInt 42]) \<and> \<not> is_str_seq (PList [PInt 42])
   \<and> parse_shell_command (PList [PInt 42]) = Inl AttributeError
   \<and> parse_shell_command (PList [PInt 42]) \<noteq> Inl TypeError"
  by simp

text \<open>
  C8, amended. For every input that is neither a string nor a list or tuple, whatever
  the elements, the parser fails with \<^verbatim>\<open>TypeError\<close>, and \<^verbatim>\<open>subprocess_run\<close> ends
  with the same error without having started any child process.
\<close>

theorem parse_invalid_type:
  assumes "\<not> is_str v" and "\<not> is_seq v"
  shows "parse_shell_command v = Inl TypeError
       \<and> subprocess_run os kw v = (Inl TypeError, [])"
  using assms by (cases v) (simp_all add: subprocess_run_def)

text \<open>The amended C8 at the integer 42.\<close>

theorem parse_invalid_type_witness:
  "\<not> is_str (PInt 42) \<and> \<not> is_seq (PInt 42)
   \<and> parse_shell_command (PInt 42) = Inl TypeError
   \<and> subprocess_run false_env \<lparr>check = False\<rparr> (PInt 42) = (Inl TypeError, [])"
proof -
  have a: "\<not> is_str (PInt 42)" and b: "\<not> is_seq (PInt 42)" by simp_all
  show ?thesis
    using a b parse_invalid_type [OF a b, of false_env "\<lparr>check = False\<rparr>"]
    by simp
qed

text \<open>
  C9. The type test looks at the outer value only. The list \<^verbatim>\<open>[["ls", "-l"]]\<close> makes
  the parser fail with \<^verbatim>\<open>AttributeError\<close>, which is not \<^verbatim>\<open>TypeError\<close>; and so does
  every list or tuple with an element that is not a string, among the values of
  \<open>pyval\<close>.
\<close>

theorem parse_element_not_checked:
  "parse_shell_command (PList [PList [PStr (str ''ls''), PStr (str ''-l'')]]) = Inl AttributeError
   \<and> Inl AttributeError \<noteq> (Inl TypeError :: py_error + argv list)
   \<and> (\<not> list_all is_str xs \<longrightarrow>
        parse_shell_command (PList xs) = Inl AttributeError
        \<and> parse_shell_command (PTuple xs) = Inl AttributeError)"
  by (simp add: parse_loop_not_str)

text \<open>C9 at a list and a tuple whose second element is \<^verbatim>\<open>None\<close>.\<close>

theorem parse_element_not_checked_witness:
  "\<not> list_all is_str [PStr (str ''ls''), PNone]
   \<and> parse_shell_command (PList [PStr (str ''ls''), PNone]) = Inl AttributeError
   \<and> parse_shell_command (PTuple [PStr (str ''ls''), PNone]) = Inl AttributeError"
proof -
  have a: "\<not> list_all is_str [PStr (str ''ls''), PNone]" by simp
  show ?thesis
    using a parse_element_not_checked [of "[PStr (str ''ls''), PNone]"] by blast
qed




end
